theory Spec2Isabelle
  imports Complex_Main
begin

text \<open>
  A shallow embedding of \<open>downloader_core.py\<close>: the speed estimator, the connection
  selector and the pipeline of \<open>download_audio_from_youtube\<close> (options, extraction with
  its single retry, file detection, result, conversion).  The pure functions are HOL
  functions.  The pipeline passes a world (the file system and the trace of the calls made
  so far) from stage to stage and returns either an exception or the result dictionary.
  The extraction library, the encoder, \<open>shutil.which\<close> and the speed test are parameters of
  the model, gathered in an environment.
\<close>

section \<open>Python values used by \<open>downloader_core.py\<close>\<close>

text \<open>
  Exceptions are values.  \<open>RuntimeError\<close> is what the downloader raises itself,
  \<open>TypeError\<close> is what Python raises when a membership test is applied to \<open>None\<close>, and
  \<open>LibraryError\<close> stands for any \<open>Exception\<close> raised by a collaborator (the extraction
  library, the speed test library).  Each carries the text \<open>str(e)\<close> yields.
\<close>

datatype exn = RuntimeError string | TypeError string | LibraryError string

fun str_exn :: "exn \<Rightarrow> string" where
  "str_exn (RuntimeError m) = m"
| "str_exn (TypeError m) = m"
| "str_exn (LibraryError m) = m"

text \<open>The substring test \<open>needle in haystack\<close> on \<open>str\<close>.\<close>

fun startswith :: "string \<Rightarrow> string \<Rightarrow> bool" where
  "startswith s [] = True"
| "startswith [] (c # cs) = False"
| "startswith (x # xs) (c # cs) = (x = c \<and> startswith xs cs)"

fun contains :: "string \<Rightarrow> string \<Rightarrow> bool" where
  "contains needle [] = (needle = [])"
| "contains needle (x # xs) = (startswith (x # xs) needle \<or> contains needle xs)"

section \<open>Speed estimator and connection selector\<close>

text \<open>
  \<open>CONNECTION_THRESHOLDS\<close>, in the order of the source: highest threshold first.
\<close>

definition CONNECTION_THRESHOLDS :: "(real \<times> int) list" where
  "CONNECTION_THRESHOLDS = [(100, 16), (50, 8), (10, 4), (0, 1)]"

text \<open>
  \<open>choose_connections\<close>: the \<open>for\<close> loop over the table returns at the first threshold that
  \<open>mbps\<close> reaches; when the loop ends without a match the function returns 1.
\<close>

fun scan_thresholds :: "real \<Rightarrow> (real \<times> int) list \<Rightarrow> int" where
  "scan_thresholds mbps [] = 1"
| "scan_thresholds mbps ((threshold, conns) # rest) =
     (if mbps \<ge> threshold then conns else scan_thresholds mbps rest)"

definition choose_connections :: "real \<Rightarrow> int" where
  "choose_connections mbps = scan_thresholds mbps CONNECTION_THRESHOLDS"

text \<open>
  The speed test library as \<open>measure_download_speed\<close> uses it: the constructor
  \<open>speedtest.Speedtest()\<close>, \<open>get_best_server()\<close> and \<open>download(threads=None)\<close> each either
  raise (\<open>Some e\<close>) or return (\<open>None\<close>), and \<open>results.dict()\<close> is a dictionary of which only
  the key \<open>download\<close> (bits per second) is read.  Throughput is a real number; the
  rounding of Python's floating point division is not modelled.
\<close>

record speedtest_api =
  Speedtest_raises :: "exn option"
  get_best_server_raises :: "exn option"
  download_raises :: "exn option"
  results_dict :: "string \<rightharpoonup> real"

text \<open>The body of the \<open>try\<close> block of \<open>measure_download_speed\<close>.\<close>

definition measure_attempt :: "speedtest_api \<Rightarrow> exn + real" where
  "measure_attempt st =
     (case Speedtest_raises st of Some e \<Rightarrow> Inl e | None \<Rightarrow>
      (case get_best_server_raises st of Some e \<Rightarrow> Inl e | None \<Rightarrow>
       (case download_raises st of Some e \<Rightarrow> Inl e | None \<Rightarrow>
        (let dl_bps = (case results_dict st ''download'' of Some v \<Rightarrow> v | None \<Rightarrow> 0)
         in Inr (dl_bps / 1000000)))))"

text \<open>\<open>measure_download_speed\<close>: \<open>except Exception: return 10\<close>.\<close>

definition measure_download_speed :: "speedtest_api \<Rightarrow> exn + real" where
  "measure_download_speed st =
     (case measure_attempt st of Inl e \<Rightarrow> Inr 10 | Inr mbps \<Rightarrow> Inr mbps)"

section \<open>Classification of a failed extraction\<close>

text \<open>
  Lines 140 to 149: the handler \<open>except Exception as e\<close> of the extraction, which turns
  the caught exception into the \<open>RuntimeError\<close> the pipeline fails with.
\<close>

definition BOT_MARK :: string where
  "BOT_MARK = ''Sign in to confirm you're not a bot''"

text \<open>The four errors raised by the handler, lines 143, 145, 147 and 149.\<close>

definition bot_verification_error :: exn where
  "bot_verification_error =
     RuntimeError ''YouTube is requesting bot verification. Please try a different video or try again later.''"

definition private_video_error :: exn where
  "private_video_error = RuntimeError ''This is a private video and cannot be downloaded.''"

definition video_unavailable_error :: exn where
  "video_unavailable_error = RuntimeError ''This video is unavailable or has been removed.''"

definition generic_download_error :: "string \<Rightarrow> exn" where
  "generic_download_error error_msg = RuntimeError (''Download failed: '' @ error_msg)"

definition download_failure :: "exn \<Rightarrow> exn" where
  "download_failure e =
     (let error_msg = str_exn e in
      if contains BOT_MARK error_msg then bot_verification_error
      else if contains ''Private video'' error_msg then private_video_error
      else if contains ''Video unavailable'' error_msg then video_unavailable_error
      else generic_download_error error_msg)"

section \<open>Paths and the file system\<close>

text \<open>
  A \<open>pathlib\<close> path is represented by the string \<open>str(path)\<close>, which is what the program
  hands to the operating system and to the encoder.  \<open>parts\<close> computes
  \<open>PurePosixPath(s).parts\<close>: the root (\<open>/\<close>, or \<open>//\<close> for exactly two leading slashes) first
  when the path is absolute, then the components; empty components and \<open>.\<close> are
  dropped, \<open>..\<close> is kept.  \<open>Path s\<close> is the string of the path built from \<open>s\<close>.  Relative
  paths are not resolved against a working directory and symbolic links are not followed.
\<close>

type_synonym path = string

fun split_slash :: "string \<Rightarrow> string list" where
  "split_slash [] = [[]]"
| "split_slash (c # cs) =
     (if c = CHR ''/'' then [] # split_slash cs
      else (case split_slash cs of [] \<Rightarrow> [[c]] | w # ws \<Rightarrow> (c # w) # ws))"

definition parts :: "string \<Rightarrow> string list" where
  "parts s =
     (let root = (if startswith s ''//'' \<and> \<not> startswith s ''///'' then [''//'']
                  else if startswith s ''/'' then [''/''] else [])
      in root @ filter (\<lambda>c. c \<noteq> [] \<and> c \<noteq> ''.'') (split_slash s))"

definition has_root :: "string list \<Rightarrow> bool" where
  "has_root ps = (case ps of [] \<Rightarrow> False | r # rest \<Rightarrow> r = ''/'' \<or> r = ''//'')"

fun join_slash :: "string list \<Rightarrow> string" where
  "join_slash [] = []"
| "join_slash [c] = c"
| "join_slash (c # d # ds) = c @ ''/'' @ join_slash (d # ds)"

definition str_parts :: "string list \<Rightarrow> path" where
  "str_parts ps =
     (case ps of [] \<Rightarrow> ''.''
      | r # rest \<Rightarrow> if has_root ps then r @ join_slash rest else join_slash ps)"

definition Path :: "string \<Rightarrow> path" where
  "Path s = str_parts (parts s)"

text \<open>\<open>path / segment\<close>: an absolute segment replaces the path.\<close>

definition joinpath :: "path \<Rightarrow> string \<Rightarrow> path" where
  "joinpath p segment =
     (let q = parts segment in str_parts (if has_root q then q else parts p @ q))"

text \<open>\<open>path.name\<close>: the last part, empty for \<open>.\<close> and for a bare root.\<close>

definition path_name :: "path \<Rightarrow> string" where
  "path_name p =
     (let ps = parts p in if ps = [] \<or> (has_root ps \<and> length ps = 1) then [] else last ps)"

text \<open>\<open>s.rfind(c)\<close>: the index of the last occurrence, or \<open>-1\<close>.\<close>

definition rfind :: "char \<Rightarrow> string \<Rightarrow> int" where
  "rfind c s =
     (if c \<in> set s then int (length s) - 1 - int (length (takeWhile (\<lambda>x. x \<noteq> c) (rev s)))
      else - 1)"

text \<open>
  \<open>path.suffix\<close> and \<open>path.stem\<close> (as up to Python 3.13): the name is cut at its last dot
  unless that dot is the first or the last character of the name.
\<close>

definition path_suffix :: "path \<Rightarrow> string" where
  "path_suffix p =
     (let name = path_name p; i = rfind CHR ''.'' name
      in if 0 < i \<and> i < int (length name) - 1 then drop (nat i) name else [])"

definition path_stem :: "path \<Rightarrow> string" where
  "path_stem p =
     (let name = path_name p; i = rfind CHR ''.'' name
      in if 0 < i \<and> i < int (length name) - 1 then take (nat i) name else name)"

text \<open>
  The file system holds the regular files, keyed by their path strings, each with the two
  \<open>stat\<close> fields the program reads; directories are implicit.  The list is in the order
  in which a directory scan enumerates the entries, and the first entry of a path is the
  one that counts.
\<close>

record stat =
  st_mtime :: real
  st_size :: nat

type_synonym filesystem = "(path \<times> stat) list"

text \<open>\<open>Path.exists()\<close>.\<close>

definition file_exists :: "filesystem \<Rightarrow> path \<Rightarrow> bool" where
  "file_exists files p = (map_of files p \<noteq> None)"

text \<open>The effect of \<open>Path.unlink()\<close>; both calls of the source are guarded by \<open>exists()\<close>.\<close>

definition remove_file :: "path \<Rightarrow> filesystem \<Rightarrow> filesystem" where
  "remove_file p files = filter (\<lambda>entry. fst entry \<noteq> p) files"

text \<open>
  \<open>output_path.glob("*")\<close>: every entry directly inside the directory, each with the
  \<open>stat\<close> that \<open>x.stat()\<close> will read.
\<close>

definition glob_star :: "filesystem \<Rightarrow> path \<Rightarrow> (path \<times> stat) list" where
  "glob_star files d =
     filter (\<lambda>entry. let ps = parts (fst entry)
                      in ps \<noteq> [] \<and> butlast ps = parts d \<and> path_name (fst entry) \<noteq> []) files"

text \<open>
  \<open>max(files, key=lambda x: x.stat().st_mtime)\<close> on a non-empty list: the candidate is
  replaced only by a strictly greater key, so the first maximal entry wins.
\<close>

fun max_by_mtime :: "path \<times> stat \<Rightarrow> (path \<times> stat) list \<Rightarrow> path \<times> stat" where
  "max_by_mtime best [] = best"
| "max_by_mtime best (x # xs) =
     max_by_mtime (if st_mtime (snd x) > st_mtime (snd best) then x else best) xs"

section \<open>Formatting\<close>

text \<open>The decimal digit \<open>d\<close>, for \<open>d < 10\<close>.\<close>

definition digit_char :: "nat \<Rightarrow> char" where
  "digit_char d = ''0123456789'' ! d"

function str_nat :: "nat \<Rightarrow> string" where
  "str_nat n = (if n < 10 then [digit_char n] else str_nat (n div 10) @ [digit_char (n mod 10)])"
  by pat_completeness auto
termination
  by (relation "measure (\<lambda>n. n)") auto

declare str_nat.simps [simp del]

text \<open>\<open>str(i)\<close> for a Python \<open>int\<close>.\<close>

definition str_int :: "int \<Rightarrow> string" where
  "str_int i = (if i < 0 then ''-'' @ str_nat (nat (- i)) else str_nat (nat i))"

text \<open>
  \<open>f"{x:.2f}"\<close> for \<open>x \<ge> 0\<close>: the value rounded to hundredths, ties to the even
  neighbour, with two decimals.
\<close>

definition format_2f :: "real \<Rightarrow> string" where
  "format_2f x =
     (let m = nat \<lfloor>x * 100\<rfloor>;
          rest = x * 100 - real m;
          cents = (if rest > 1 / 2 \<or> (rest = 1 / 2 \<and> odd m) then m + 1 else m)
      in str_nat (cents div 100) @ ''.''
         @ [digit_char (cents mod 100 div 10), digit_char (cents mod 10)])"

text \<open>
  \<open>human_readable_size\<close>.  The \<open>while\<close> loop divides by \<open>1024.0\<close> while the value is at
  least 1024 and a larger unit remains.  The division is exact in floating point for any
  size below \<open>2 ^ 53\<close> bytes, which is the range this model covers.
\<close>

definition size_names :: "string list" where
  "size_names = [''B'', ''KB'', ''MB'', ''GB'']"

function size_loop :: "real \<Rightarrow> nat \<Rightarrow> real \<times> nat" where
  "size_loop size_bytes i =
     (if size_bytes \<ge> 1024 \<and> i < length size_names - 1
      then size_loop (size_bytes / 1024) (i + 1) else (size_bytes, i))"
  by pat_completeness auto
termination
  by (relation "measure (\<lambda>(s, i). length size_names - 1 - i)") auto

declare size_loop.simps [simp del]

definition human_readable_size :: "nat \<Rightarrow> string" where
  "human_readable_size size_bytes =
     (if size_bytes = 0 then ''0 B''
      else (let (v, i) = size_loop (real size_bytes) 0
            in format_2f v @ '' '' @ size_names ! i))"

text \<open>\<open>s.upper()\<close> on ASCII letters; other bytes are left as they are.\<close>

definition upper_char :: "char \<Rightarrow> char" where
  "upper_char c =
     (case map_of (zip ''abcdefghijklmnopqrstuvwxyz'' ''ABCDEFGHIJKLMNOPQRSTUVWXYZ'') c of
        Some u \<Rightarrow> u
      | None \<Rightarrow> c)"

definition upper :: "string \<Rightarrow> string" where
  "upper s = map upper_char s"

section \<open>The collaborators and the world\<close>

text \<open>
  The options dictionary handed to \<open>YoutubeDL\<close>, one field per key.  A progress hook is a
  callback; the model keeps only a handle for it and does not run it.
\<close>

type_synonym hook = nat

record ytdlp_opts =
  format :: string
  outtmpl :: string
  noplaylist :: bool
  quiet :: bool
  no_warnings :: bool
  ignoreerrors :: bool
  postprocessors :: "string list"
  skip_download :: bool
  external_downloader :: "string option"
  external_downloader_args :: "string list"
  writeinfojson :: bool
  overwrites :: bool
  extract_flat :: bool
  http_headers :: "(string \<times> string) list"
  sleep_interval :: nat
  max_sleep_interval :: nat
  retries :: nat
  fragment_retries :: nat
  skip_unavailable_fragments :: bool
  keep_fragments :: bool
  noprogress :: bool
  progress_hooks :: "hook list option"

text \<open>
  The result of \<open>extract_info\<close>, with the keys the program reads.  For a \<open>filepath\<close>,
  \<open>None\<close> stands for a missing key and for the value \<open>None\<close> alike (the program treats
  both the same way); the empty string is a value of its own.
\<close>

record requested_download =
  req_filepath :: "string option"

record info_dict =
  info_requested_downloads :: "requested_download list option"
  info_filepath :: "string option"
  info_title :: "string option"

text \<open>What \<open>subprocess.run(..., capture_output=True, text=True)\<close> reports.\<close>

record completed_process =
  returncode :: int
  stderr :: string

text \<open>
  Every call that leaves the program is an event of the trace, in the order of the
  calls.  A spawned process is recorded with the file system it starts in.
\<close>

datatype event =
    Mkdir path
  | MeasureSpeed
  | Which string
  | ExtractInfo ytdlp_opts string
  | Unlink path
  | SubprocessRun "string list" filesystem

record world =
  fs :: filesystem
  trace :: "event list"

text \<open>
  The environment answers the calls.  \<open>which\<close> is \<open>shutil.which\<close>.  \<open>extract_info\<close> is
  \<open>YoutubeDL(opts).extract_info(url, download=True)\<close>: it raises or returns (possibly
  \<open>None\<close>), and leaves a file system behind.  \<open>subprocess_run\<close> runs a command to its end.
  Neither answer is constrained.
\<close>

record env =
  speedtest :: speedtest_api
  which :: "string \<Rightarrow> string option"
  extract_info :: "ytdlp_opts \<Rightarrow> string \<Rightarrow> filesystem \<Rightarrow> (exn + info_dict option) \<times> filesystem"
  subprocess_run :: "string list \<Rightarrow> filesystem \<Rightarrow> completed_process \<times> filesystem"

text \<open>The arguments of \<open>download_audio_from_youtube\<close>.\<close>

record request =
  url :: string
  output_dir :: "string option"
  convert_to_mp3 :: bool
  keep_original :: bool
  progress_hook :: "hook option"

text \<open>The returned dictionary and the entries of its \<open>files\<close> list.\<close>

record file_entry =
  entry_name :: string
  entry_type :: string
  entry_size :: string
  entry_format :: string

record results =
  title :: string
  status :: string
  files :: "file_entry list"

section \<open>The pipeline\<close>

definition DOWNLOADS_DIR :: path where
  "DOWNLOADS_DIR = Path ''downloads''"

definition log_event :: "event \<Rightarrow> world \<Rightarrow> world" where
  "log_event ev w = w\<lparr>trace := trace w @ [ev]\<rparr>"

text \<open>\<open>Path.mkdir(parents=True, exist_ok=True)\<close>; directories are implicit in \<open>fs\<close>.\<close>

definition mkdir :: "path \<Rightarrow> world \<Rightarrow> world" where
  "mkdir p w = log_event (Mkdir p) w"

definition unlink :: "path \<Rightarrow> world \<Rightarrow> world" where
  "unlink p w = log_event (Unlink p) (w\<lparr>fs := remove_file p (fs w)\<rparr>)"

definition check_tool_exists :: "env \<Rightarrow> string \<Rightarrow> world \<Rightarrow> bool \<times> world" where
  "check_tool_exists e tool_name w = (which e tool_name \<noteq> None, log_event (Which tool_name) w)"

definition safe_outtmpl :: "path \<Rightarrow> world \<Rightarrow> string \<times> world" where
  "safe_outtmpl out_dir w =
     (joinpath out_dir ''%(title).200s.%(ext)s'', mkdir out_dir w)"

definition HTTP_HEADERS :: "(string \<times> string) list" where
  "HTTP_HEADERS =
     [(''User-Agent'', ''Mozilla/5.0 (Windows NT 10.0; Win64; x64) AppleWebKit/537.36 (KHTML, like Gecko) Chrome/120.0.0.0 Safari/537.36''),
      (''Accept'', ''text/html,application/xhtml+xml,application/xml;q=0.9,*/*;q=0.8''),
      (''Accept-Language'', ''en-us,en;q=0.5''),
      (''Accept-Encoding'', ''gzip,deflate''),
      (''Accept-Charset'', ''ISO-8859-1,utf-8;q=0.7,*;q=0.7''),
      (''Connection'', ''keep-alive'')]"

text \<open>
  Lines 64 to 124: the output directory, the connection plan and the options.  The
  \<open>print\<close> calls are not modelled.  The \<open>except\<close> branch of the speed measurement
  (\<open>mbps = 0\<close>, one connection) is kept as the source has it.
\<close>

definition prepare :: "env \<Rightarrow> request \<Rightarrow> world \<Rightarrow> (path \<times> ytdlp_opts) \<times> world" where
  "prepare e req w0 =
     (let output_path = (case output_dir req of None \<Rightarrow> DOWNLOADS_DIR | Some d \<Rightarrow> Path d);
          w1 = mkdir output_path w0;
          w2 = log_event MeasureSpeed w1;
          (mbps, connections) =
            (case measure_download_speed (speedtest e) of
               Inr mbps \<Rightarrow> (mbps, choose_connections mbps)
             | Inl x \<Rightarrow> (0, 1));
          (has_aria2, w3) = check_tool_exists e ''aria2c'' w2;
          use_aria2 = (has_aria2 \<and> connections > 1);
          (template, w4) = safe_outtmpl output_path w3;
          opts = \<lparr>format = ''bestaudio/best'',
                  outtmpl = template,
                  noplaylist = True,
                  quiet = True,
                  no_warnings = False,
                  ignoreerrors = True,
                  postprocessors = [],
                  skip_download = False,
                  external_downloader = (if use_aria2 then Some ''aria2c'' else None),
                  external_downloader_args =
                    (if use_aria2
                     then [''-x'', str_int connections, ''-s'', str_int connections, ''-k'', ''1M'']
                     else []),
                  writeinfojson = False,
                  overwrites = True,
                  extract_flat = False,
                  http_headers = HTTP_HEADERS,
                  sleep_interval = 1,
                  max_sleep_interval = 2,
                  retries = 10,
                  fragment_retries = 10,
                  skip_unavailable_fragments = True,
                  keep_fragments = False,
                  noprogress = True,
                  progress_hooks = None\<rparr>
      in ((output_path,
           (case progress_hook req of Some h \<Rightarrow> opts\<lparr>progress_hooks := Some [h]\<rparr> | None \<Rightarrow> opts)),
          w4))"

text \<open>One call of \<open>extract_info\<close>.\<close>

definition call_extract_info ::
  "env \<Rightarrow> ytdlp_opts \<Rightarrow> string \<Rightarrow> world \<Rightarrow> (exn + info_dict option) \<times> world" where
  "call_extract_info e opts u w =
     (let (r, files') = extract_info e opts u (fs w)
      in (r, log_event (ExtractInfo opts u) (w\<lparr>fs := files'\<rparr>)))"

text \<open>
  Lines 126 to 149: the first attempt; on an exception the retry with a copy of the
  options in which \<open>quiet\<close> is \<open>False\<close>; on an exception of the retry the outer handler.
\<close>

definition extract_with_retry ::
  "env \<Rightarrow> ytdlp_opts \<Rightarrow> string \<Rightarrow> world \<Rightarrow> (exn + info_dict option) \<times> world" where
  "extract_with_retry e opts u w =
     (case call_extract_info e opts u w of
        (Inr info, w1) \<Rightarrow> (Inr info, w1)
      | (Inl first, w1) \<Rightarrow>
          (let ytdlp_opts_retry = opts\<lparr>quiet := False\<rparr>
           in case call_extract_info e ytdlp_opts_retry u w1 of
                (Inr info, w2) \<Rightarrow> (Inr info, w2)
              | (Inl second, w2) \<Rightarrow> (Inl (download_failure second), w2)))"

text \<open>Lines 154 to 159: the loop over \<open>info["requested_downloads"]\<close>, left at the first hit.\<close>

fun first_requested :: "filesystem \<Rightarrow> requested_download list \<Rightarrow> path option" where
  "first_requested fsys [] = None"
| "first_requested fsys (req # reqs) =
     (case req_filepath req of
        Some fp \<Rightarrow>
          if fp \<noteq> [] \<and> file_exists fsys (Path fp) then Some (Path fp)
          else first_requested fsys reqs
      | None \<Rightarrow> first_requested fsys reqs)"

text \<open>Lines 152 to 170: file detection.\<close>

definition find_downloaded_file :: "info_dict \<Rightarrow> path \<Rightarrow> filesystem \<Rightarrow> path option" where
  "find_downloaded_file info output_path fsys =
     (let downloaded_file =
            (case info_requested_downloads info of
               Some reqs \<Rightarrow> first_requested fsys reqs
             | None \<Rightarrow> None);
          downloaded_file =
            (case downloaded_file of
               Some f \<Rightarrow> Some f
             | None \<Rightarrow>
                 (case info_filepath info of
                    Some fp \<Rightarrow> if fp \<noteq> [] \<and> file_exists fsys (Path fp) then Some (Path fp) else None
                  | None \<Rightarrow> None))
      in case downloaded_file of
           Some f \<Rightarrow> Some f
         | None \<Rightarrow>
             (case glob_star fsys output_path of
                [] \<Rightarrow> None
              | x # xs \<Rightarrow> Some (fst (max_by_mtime x xs))))"

definition original_entry :: "path \<Rightarrow> stat \<Rightarrow> file_entry" where
  "original_entry downloaded_file st =
     \<lparr>entry_name = path_name downloaded_file,
      entry_type = ''original'',
      entry_size = human_readable_size (st_size st),
      entry_format = upper (filter (\<lambda>c. c \<noteq> CHR ''.'') (path_suffix downloaded_file))\<rparr>"

definition mp3_entry :: "path \<Rightarrow> stat \<Rightarrow> file_entry" where
  "mp3_entry mp3_path st =
     \<lparr>entry_name = path_name mp3_path,
      entry_type = ''mp3'',
      entry_size = human_readable_size (st_size st),
      entry_format = ''MP3''\<rparr>"

definition ffmpeg_cmd :: "path \<Rightarrow> path \<Rightarrow> string list" where
  "ffmpeg_cmd downloaded_file mp3_path =
     [''ffmpeg'', ''-y'', ''-i'', downloaded_file, ''-vn'',
      ''-codec:a'', ''libmp3lame'', ''-b:a'', ''320k'', ''-ac'', ''2'', ''-ar'', ''44100'',
      mp3_path]"

definition run_subprocess :: "env \<Rightarrow> string list \<Rightarrow> world \<Rightarrow> completed_process \<times> world" where
  "run_subprocess e cmd w =
     (let (proc, files') = subprocess_run e cmd (fs w)
      in (proc, log_event (SubprocessRun cmd (fs w)) (w\<lparr>fs := files'\<rparr>)))"

text \<open>The target of the conversion, line 199.\<close>

definition mp3_path_of :: "path \<Rightarrow> path \<Rightarrow> path" where
  "mp3_path_of output_path downloaded_file = joinpath output_path (path_stem downloaded_file @ ''.mp3'')"

text \<open>The errors of lines 197 and 223.\<close>

definition ffmpeg_missing_error :: exn where
  "ffmpeg_missing_error = RuntimeError ''ffmpeg not found - MP3 conversion unavailable''"

definition conversion_failed_error :: "string \<Rightarrow> exn" where
  "conversion_failed_error diagnostics = RuntimeError (''MP3 conversion failed: '' @ diagnostics)"

text \<open>
  Lines 195 to 240: the conversion.  With \<open>check=True\<close> a non-zero return code raises
  \<open>CalledProcessError\<close>, which the handler turns into the \<open>RuntimeError\<close> carrying the
  captured diagnostics.
\<close>

definition convert ::
  "env \<Rightarrow> request \<Rightarrow> path \<Rightarrow> path \<Rightarrow> results \<Rightarrow> world \<Rightarrow> (exn + results) \<times> world" where
  "convert e req output_path downloaded_file res w0 =
     (let (has_ffmpeg, w1) = check_tool_exists e ''ffmpeg'' w0
      in if \<not> has_ffmpeg
         then (Inl ffmpeg_missing_error, w1)
         else
           (let mp3_path = mp3_path_of output_path downloaded_file;
                w2 = (if file_exists (fs w1) mp3_path then unlink mp3_path w1 else w1);
                (proc, w3) = run_subprocess e (ffmpeg_cmd downloaded_file mp3_path) w2
            in if returncode proc \<noteq> 0
               then (Inl (conversion_failed_error (stderr proc)), w3)
               else
                 (let res1 = (case map_of (fs w3) mp3_path of
                                Some st \<Rightarrow> res\<lparr>files := files res @ [mp3_entry mp3_path st]\<rparr>
                              | None \<Rightarrow> res)
                  in if \<not> keep_original req \<and> file_exists (fs w3) downloaded_file
                     then (Inr (res1\<lparr>files := filter (\<lambda>f. entry_type f \<noteq> ''original'') (files res1)\<rparr>),
                           unlink downloaded_file w3)
                     else (Inr res1, w3))))"

text \<open>Lines 175 to 242: the result and the optional conversion, once the file is found.\<close>

definition report_and_convert ::
  "env \<Rightarrow> request \<Rightarrow> path \<Rightarrow> info_dict \<Rightarrow> path \<Rightarrow> world \<Rightarrow> (exn + results) \<times> world" where
  "report_and_convert e req output_path info downloaded_file w =
     (let video_title = (case info_title info of Some t \<Rightarrow> t | None \<Rightarrow> ''Unknown Title'');
          res = \<lparr>title = video_title, status = ''success'', files = []\<rparr>;
          res = (case map_of (fs w) downloaded_file of
                   Some st \<Rightarrow> res\<lparr>files := files res @ [original_entry downloaded_file st]\<rparr>
                 | None \<Rightarrow> res)
      in if convert_to_mp3 req then convert e req output_path downloaded_file res w
         else (Inr res, w))"

definition file_not_found_error :: exn where
  "file_not_found_error =
     RuntimeError ''Could not find downloaded audio file. The download may have failed.''"

text \<open>Lines 151 to 242: file detection, then the rest; line 173 when nothing was found.\<close>

definition after_extraction ::
  "env \<Rightarrow> request \<Rightarrow> path \<Rightarrow> info_dict \<Rightarrow> world \<Rightarrow> (exn + results) \<times> world" where
  "after_extraction e req output_path info w =
     (case find_downloaded_file info output_path (fs w) of
        None \<Rightarrow> (Inl file_not_found_error, w)
      | Some downloaded_file \<Rightarrow> report_and_convert e req output_path info downloaded_file w)"

text \<open>
  \<open>download_audio_from_youtube\<close>.  When \<open>extract_info\<close> returns \<open>None\<close>, the test
  \<open>"requested_downloads" in info\<close> of line 154 raises \<open>TypeError\<close>.
\<close>

definition none_info_error :: exn where
  "none_info_error = TypeError ''argument of type 'NoneType' is not iterable''"

definition download_audio_from_youtube :: "env \<Rightarrow> request \<Rightarrow> world \<Rightarrow> (exn + results) \<times> world" where
  "download_audio_from_youtube e req w0 =
     (let ((output_path, opts), w1) = prepare e req w0
      in case extract_with_retry e opts (url req) w1 of
           (Inl err, w2) \<Rightarrow> (Inl err, w2)
         | (Inr None, w2) \<Rightarrow> (Inl none_info_error, w2)
         | (Inr (Some info), w2) \<Rightarrow> after_extraction e req output_path info w2)"

section \<open>Observations on a run\<close>

text \<open>The events a run adds to the trace, and the calls of one kind among them.\<close>

definition new_events :: "world \<Rightarrow> world \<Rightarrow> event list" where
  "new_events w w' = drop (length (trace w)) (trace w')"

fun extract_calls :: "event list \<Rightarrow> (ytdlp_opts \<times> string) list" where
  "extract_calls [] = []"
| "extract_calls (ExtractInfo opts u # evs) = (opts, u) # extract_calls evs"
| "extract_calls (ev # evs) = extract_calls evs"

fun spawned :: "event list \<Rightarrow> (string list \<times> filesystem) list" where
  "spawned [] = []"
| "spawned (SubprocessRun cmd snapshot # evs) = (cmd, snapshot) # spawned evs"
| "spawned (ev # evs) = spawned evs"

fun which_calls :: "event list \<Rightarrow> string list" where
  "which_calls [] = []"
| "which_calls (Which tool_name # evs) = tool_name # which_calls evs"
| "which_calls (ev # evs) = which_calls evs"

text \<open>The test \<open>fp and Path(fp).exists()\<close> of lines 157 and 163, on an optional string.\<close>

definition names_existing :: "filesystem \<Rightarrow> string option \<Rightarrow> bool" where
  "names_existing fsys fpo =
     (case fpo of Some fp \<Rightarrow> fp \<noteq> [] \<and> file_exists fsys (Path fp) | None \<Rightarrow> False)"

definition requested_list :: "info_dict \<Rightarrow> requested_download list" where
  "requested_list info = (case info_requested_downloads info of Some reqs \<Rightarrow> reqs | None \<Rightarrow> [])"

text \<open>
  What the pipeline expects of the encoder: when \<open>ffmpeg -y -i source ... target\<close> exits
  with status 0, the target has been written and the source is still in place.
\<close>

definition encoder_reliable :: "env \<Rightarrow> bool" where
  "encoder_reliable e =
     (\<forall>source target fsys.
        returncode (fst (subprocess_run e (ffmpeg_cmd source target) fsys)) = 0 \<longrightarrow>
        file_exists (snd (subprocess_run e (ffmpeg_cmd source target) fsys)) source
        \<and> file_exists (snd (subprocess_run e (ffmpeg_cmd source target) fsys)) target)"

section \<open>Example environments\<close>

text \<open>
  Small environments on which the theorems below are instantiated.  In the working one the
  extraction writes \<open>d/a.webm\<close> and reports it, and the encoder fails on a missing source
  and otherwise writes its target.  The lazy encoder exits with status 0 and writes nothing.
\<close>

definition write_file :: "path \<Rightarrow> stat \<Rightarrow> filesystem \<Rightarrow> filesystem" where
  "write_file p st fsys = (p, st) # remove_file p fsys"

definition example_info :: info_dict where
  "example_info =
     \<lparr>info_requested_downloads = Some [\<lparr>req_filepath = Some ''d/a.webm''\<rparr>],
      info_filepath = None, info_title = Some ''A''\<rparr>"


definition working_env :: env where
  "working_env =
     \<lparr>speedtest = \<lparr>Speedtest_raises = None, get_best_server_raises = None, download_raises = None,
                    results_dict = [''download'' \<mapsto> 75000000]\<rparr>,
      which = (\<lambda>tool_name. Some (''/usr/bin/'' @ tool_name)),
      extract_info = (\<lambda>opts u fsys.
         (Inr (Some example_info), write_file ''d/a.webm'' \<lparr>st_mtime = 5, st_size = 1536\<rparr> fsys)),
      subprocess_run = (\<lambda>cmd fsys.
         if file_exists fsys (cmd ! 3)
         then (\<lparr>returncode = 0, stderr = []\<rparr>,
               write_file (last cmd) \<lparr>st_mtime = 6, st_size = 2048\<rparr> fsys)
         else (\<lparr>returncode = 1, stderr = ''No such file or directory''\<rparr>, fsys))\<rparr>"





definition lazy_encoder_env :: env where
  "lazy_encoder_env =
     working_env\<lparr>subprocess_run := (\<lambda>cmd fsys. (\<lparr>returncode = 0, stderr = []\<rparr>, fsys))\<rparr>"

definition convert_request :: request where
  "convert_request =
     \<lparr>url = ''u'', output_dir = Some ''d'', convert_to_mp3 = True, keep_original = False,
      progress_hook = None\<rparr>"

definition plain_request :: request where
  "plain_request = convert_request\<lparr>convert_to_mp3 := False, keep_original := True\<rparr>"

definition stale_world :: world where
  "stale_world = \<lparr>fs = [(''d/a.mp3'', \<lparr>st_mtime = 1, st_size = 7\<rparr>)], trace = []\<rparr>"



section \<open>Basic facts\<close>

subsection \<open>Strings and errors\<close>

lemma startswith_iff: "startswith s p \<longleftrightarrow> (\<exists>r. s = p @ r)"
  by (induction s p rule: startswith.induct) auto

lemma contains_iff: "contains needle hay \<longleftrightarrow> (\<exists>a b. hay = a @ needle @ b)"
proof (induction hay)
  case Nil
  then show ?case by auto
next
  case (Cons x xs)
  show ?case
  proof
    assume "contains needle (x # xs)"
    then consider "startswith (x # xs) needle" | "contains needle xs" by auto
    then show "\<exists>a b. x # xs = a @ needle @ b"
    proof cases
      case 1
      then obtain r where "x # xs = needle @ r" by (auto simp: startswith_iff)
      then have "x # xs = [] @ needle @ r" by simp
      then show ?thesis by blast
    next
      case 2
      with Cons obtain a b where "xs = a @ needle @ b" by auto
      then have "x # xs = (x # a) @ needle @ b" by simp
      then show ?thesis by blast
    qed
  next
    assume "\<exists>a b. x # xs = a @ needle @ b"
    then obtain a b where ab: "x # xs = a @ needle @ b" by auto
    show "contains needle (x # xs)"
    proof (cases a)
      case Nil
      with ab have "startswith (x # xs) needle" by (auto simp: startswith_iff)
      then show ?thesis by simp
    next
      case (Cons y ys)
      with ab have "xs = ys @ needle @ b" by simp
      with Cons.IH have "contains needle xs" by blast
      then show ?thesis by simp
    qed
  qed
qed



subsection \<open>Traces\<close>

lemma new_events_append: "trace w' = trace w @ evs \<Longrightarrow> new_events w w' = evs"
  by (simp add: new_events_def)





subsection \<open>The file system\<close>

lemma file_exists_iff: "file_exists fsys p \<longleftrightarrow> p \<in> fst ` set fsys"
  by (simp add: file_exists_def map_of_eq_None_iff)

lemma file_exists_remove: "file_exists (remove_file p fsys) q \<longleftrightarrow> q \<noteq> p \<and> file_exists fsys q"
  by (auto simp: file_exists_iff remove_file_def)

lemma remove_file_absent: "\<not> file_exists fsys p \<Longrightarrow> remove_file p fsys = fsys"
  by (auto simp: file_exists_iff remove_file_def filter_id_conv)

lemma map_of_remove_same: "map_of (remove_file p fsys) p = None"
  using file_exists_remove [of p fsys p] by (simp add: file_exists_def)

lemma file_exists_write: "file_exists (write_file p st fsys) q \<longleftrightarrow> q = p \<or> file_exists fsys q"
  by (auto simp: write_file_def file_exists_iff remove_file_def)

lemma map_of_write_same: "map_of (write_file p st fsys) p = Some st"
  by (simp add: write_file_def)

lemma glob_star_subset: "set (glob_star fsys d) \<subseteq> set fsys"
  by (auto simp: glob_star_def)

lemma max_by_mtime_mem: "max_by_mtime best xs \<in> set (best # xs)"
  by (induction xs arbitrary: best) auto



subsection \<open>File detection\<close>

lemma first_requested_exists: "first_requested fsys reqs = Some f \<Longrightarrow> file_exists fsys f"
  by (induction reqs) (auto split: option.splits if_splits)



lemma find_downloaded_file_exists:
  assumes "find_downloaded_file info output_path fsys = Some f"
  shows "file_exists fsys f"
proof (cases "first_requested fsys (requested_list info)")
  case (Some g)
  then have "find_downloaded_file info output_path fsys = Some g"
    by (auto simp: find_downloaded_file_def requested_list_def split: option.splits)
  with assms Some show ?thesis by (auto dest: first_requested_exists)
next
  case None
  then have a: "(case info_requested_downloads info of Some reqs \<Rightarrow> first_requested fsys reqs | None \<Rightarrow> None) = None"
    by (auto simp: requested_list_def split: option.splits)
  show ?thesis
  proof (cases "names_existing fsys (info_filepath info)")
    case True
    with a assms show ?thesis
      by (auto simp: find_downloaded_file_def names_existing_def split: option.splits)
  next
    case False
    with a assms obtain x xs where g: "glob_star fsys output_path = x # xs" and f: "f = fst (max_by_mtime x xs)"
      by (auto simp: find_downloaded_file_def names_existing_def split: option.splits list.splits if_splits)
    have "max_by_mtime x xs \<in> set (glob_star fsys output_path)"
      using max_by_mtime_mem [of x xs] g by simp
    then have "max_by_mtime x xs \<in> set fsys" using glob_star_subset by blast
    then show ?thesis using f by (auto simp: file_exists_iff)
  qed
qed

lemma find_downloaded_file_cases:
  "find_downloaded_file info output_path fsys =
     (case first_requested fsys (requested_list info) of
        Some f \<Rightarrow> Some f
      | None \<Rightarrow>
          (case info_filepath info of
             Some fp \<Rightarrow>
               if names_existing fsys (Some fp) then Some (Path fp)
               else (case glob_star fsys output_path of [] \<Rightarrow> None
                     | x # xs \<Rightarrow> Some (fst (max_by_mtime x xs)))
           | None \<Rightarrow> (case glob_star fsys output_path of [] \<Rightarrow> None
                       | x # xs \<Rightarrow> Some (fst (max_by_mtime x xs)))))"
  by (simp add: find_downloaded_file_def requested_list_def names_existing_def Let_def
           split: option.splits)

subsection \<open>The stages of the pipeline\<close>

lemma prepare_world:
  assumes "prepare e req w = ((output_path, opts), w1)"
  shows "fs w1 = fs w"
    and "trace w1 = trace w @ [Mkdir output_path, MeasureSpeed, Which ''aria2c'', Mkdir output_path]"
    and "quiet opts"
  using assms
  by (auto simp: prepare_def Let_def mkdir_def log_event_def check_tool_exists_def safe_outtmpl_def
           split: sum.splits option.splits prod.splits)

lemma prepare_output_path:
  "fst (fst (prepare e req w)) = (case output_dir req of None \<Rightarrow> DOWNLOADS_DIR | Some d \<Rightarrow> Path d)"
  by (simp add: prepare_def Let_def check_tool_exists_def safe_outtmpl_def
           split: prod.splits sum.splits option.splits)

lemma extract_first_returns:
  assumes "extract_info e opts u (fs w) = (Inr info, f1)"
  shows "extract_with_retry e opts u w = (Inr info, w\<lparr>fs := f1, trace := trace w @ [ExtractInfo opts u]\<rparr>)"
  using assms by (simp add: extract_with_retry_def call_extract_info_def log_event_def)


lemma extract_with_retry_world:
  assumes "extract_with_retry e opts u w = (r, w')"
  obtains (once) "trace w' = trace w @ [ExtractInfo opts u]"
  | (twice) "trace w' = trace w @ [ExtractInfo opts u, ExtractInfo (opts\<lparr>quiet := False\<rparr>) u]"
  using assms
  by (auto simp: extract_with_retry_def call_extract_info_def log_event_def Let_def
           split: prod.splits sum.splits)

lemma download_cases:
  assumes "download_audio_from_youtube e req w = (r, w')"
  obtains (failed) output_path opts w1 err where
      "prepare e req w = ((output_path, opts), w1)"
      "extract_with_retry e opts (url req) w1 = (Inl err, w')" "r = Inl err"
  | (none) output_path opts w1 where
      "prepare e req w = ((output_path, opts), w1)"
      "extract_with_retry e opts (url req) w1 = (Inr None, w')" "r = Inl none_info_error"
  | (extracted) output_path opts w1 info w2 where
      "prepare e req w = ((output_path, opts), w1)"
      "extract_with_retry e opts (url req) w1 = (Inr (Some info), w2)"
      "after_extraction e req output_path info w2 = (r, w')"
  using assms
  by (auto simp: download_audio_from_youtube_def split: prod.splits sum.splits option.splits)

lemma download_extracted:
  assumes "prepare e req w = ((output_path, opts), w1)"
      and "extract_with_retry e opts (url req) w1 = (Inr (Some info), w2)"
  shows "download_audio_from_youtube e req w = after_extraction e req output_path info w2"
  using assms by (simp add: download_audio_from_youtube_def)


lemma convert_missing:
  assumes "which e ''ffmpeg'' = None"
  shows "convert e req output_path src res w
           = (Inl ffmpeg_missing_error, w\<lparr>trace := trace w @ [Which ''ffmpeg'']\<rparr>)"
  using assms by (simp add: convert_def check_tool_exists_def log_event_def)

lemma convert_present:
  assumes "which e ''ffmpeg'' \<noteq> None"
      and "tgt = mp3_path_of output_path src"
      and "subprocess_run e (ffmpeg_cmd src tgt) (remove_file tgt (fs w)) = (proc, f3)"
      and "w3 = w\<lparr>fs := f3,
                   trace := trace w @ Which ''ffmpeg'' # (if file_exists (fs w) tgt then [Unlink tgt] else [])
                            @ [SubprocessRun (ffmpeg_cmd src tgt) (remove_file tgt (fs w))]\<rparr>"
      and "res1 = (case map_of f3 tgt of
                     Some st \<Rightarrow> res\<lparr>files := files res @ [mp3_entry tgt st]\<rparr>
                   | None \<Rightarrow> res)"
  shows "convert e req output_path src res w =
           (if returncode proc \<noteq> 0 then (Inl (conversion_failed_error (stderr proc)), w3)
            else if \<not> keep_original req \<and> file_exists f3 src
            then (Inr (res1\<lparr>files := filter (\<lambda>f. entry_type f \<noteq> ''original'') (files res1)\<rparr>),
                  w3\<lparr>fs := remove_file src f3, trace := trace w3 @ [Unlink src]\<rparr>)
            else (Inr res1, w3))"
proof -
  note facts = assms(1,3,4,5) [unfolded assms(2)]
  show ?thesis
    unfolding assms(2)
  proof (cases "file_exists (fs w) (mp3_path_of output_path src)")
    case True
    with facts show ?thesis
      by (simp add: convert_def check_tool_exists_def log_event_def run_subprocess_def unlink_def Let_def)
  next
    case False
    then have "remove_file (mp3_path_of output_path src) (fs w) = fs w" by (rule remove_file_absent)
    with False facts show ?thesis
      by (simp add: convert_def check_tool_exists_def log_event_def run_subprocess_def unlink_def Let_def)
  qed
qed

lemma report_original:
  assumes "file_exists (fs w) src"
  obtains st where "map_of (fs w) src = Some st"
    and "report_and_convert e req output_path info src w =
           (let res = \<lparr>title = (case info_title info of Some t \<Rightarrow> t | None \<Rightarrow> ''Unknown Title''),
                       status = ''success'', files = [original_entry src st]\<rparr>
            in if convert_to_mp3 req then convert e req output_path src res w else (Inr res, w))"
proof -
  from assms obtain st where st: "map_of (fs w) src = Some st" by (auto simp: file_exists_def)
  then have "report_and_convert e req output_path info src w =
           (let res = \<lparr>title = (case info_title info of Some t \<Rightarrow> t | None \<Rightarrow> ''Unknown Title''),
                       status = ''success'', files = [original_entry src st]\<rparr>
            in if convert_to_mp3 req then convert e req output_path src res w else (Inr res, w))"
    by (simp add: report_and_convert_def Let_def)
  with st that show ?thesis by blast
qed

lemma entry_types [simp]:
  "entry_type (original_entry f st) = ''original''" "entry_type (mp3_entry f st) = ''mp3''"
  by (simp_all add: original_entry_def mp3_entry_def)

lemma after_extraction_not_found:
  assumes "find_downloaded_file info output_path (fs w) = None"
  shows "after_extraction e req output_path info w = (Inl file_not_found_error, w)"
  using assms by (simp add: after_extraction_def)

lemma after_extraction_plain:
  assumes "find_downloaded_file info output_path (fs w) = Some src" and "\<not> convert_to_mp3 req"
  obtains st where "map_of (fs w) src = Some st"
    and "after_extraction e req output_path info w =
           (Inr \<lparr>title = (case info_title info of Some t \<Rightarrow> t | None \<Rightarrow> ''Unknown Title''),
                 status = ''success'', files = [original_entry src st]\<rparr>, w)"
proof -
  from assms(1) have "file_exists (fs w) src" by (rule find_downloaded_file_exists)
  then obtain st where "map_of (fs w) src = Some st"
    and "report_and_convert e req output_path info src w =
           (let res = \<lparr>title = (case info_title info of Some t \<Rightarrow> t | None \<Rightarrow> ''Unknown Title''),
                       status = ''success'', files = [original_entry src st]\<rparr>
            in if convert_to_mp3 req then convert e req output_path src res w else (Inr res, w))"
    by (rule report_original)
  with assms that show ?thesis by (simp add: after_extraction_def Let_def)
qed

lemma after_extraction_no_encoder:
  assumes "find_downloaded_file info output_path (fs w) = Some src" and "convert_to_mp3 req"
      and "which e ''ffmpeg'' = None"
  shows "after_extraction e req output_path info w
           = (Inl ffmpeg_missing_error, w\<lparr>trace := trace w @ [Which ''ffmpeg'']\<rparr>)"
proof -
  from assms(1) have "file_exists (fs w) src" by (rule find_downloaded_file_exists)
  then obtain st where "map_of (fs w) src = Some st"
    and "report_and_convert e req output_path info src w =
           (let res = \<lparr>title = (case info_title info of Some t \<Rightarrow> t | None \<Rightarrow> ''Unknown Title''),
                       status = ''success'', files = [original_entry src st]\<rparr>
            in if convert_to_mp3 req then convert e req output_path src res w else (Inr res, w))"
    by (rule report_original)
  with assms show ?thesis by (simp add: after_extraction_def Let_def convert_missing)
qed

lemma after_extraction_converting:
  assumes found: "find_downloaded_file info output_path (fs w) = Some src"
      and conv: "convert_to_mp3 req" and enc: "which e ''ffmpeg'' \<noteq> None"
      and st: "map_of (fs w) src = Some st"
      and tgt: "tgt = mp3_path_of output_path src"
      and sp: "subprocess_run e (ffmpeg_cmd src tgt) (remove_file tgt (fs w)) = (proc, f3)"
  shows "after_extraction e req output_path info w =
       (let res1 = \<lparr>title = (case info_title info of Some t \<Rightarrow> t | None \<Rightarrow> ''Unknown Title''),
                    status = ''success'',
                    files = original_entry src st
                            # (case map_of f3 tgt of Some st' \<Rightarrow> [mp3_entry tgt st'] | None \<Rightarrow> [])\<rparr>;
            w3 = w\<lparr>fs := f3,
                   trace := trace w @ Which ''ffmpeg'' # (if file_exists (fs w) tgt then [Unlink tgt] else [])
                            @ [SubprocessRun (ffmpeg_cmd src tgt) (remove_file tgt (fs w))]\<rparr>
        in if returncode proc \<noteq> 0 then (Inl (conversion_failed_error (stderr proc)), w3)
           else if \<not> keep_original req \<and> file_exists f3 src
           then (Inr (res1\<lparr>files := filter (\<lambda>f. entry_type f \<noteq> ''original'') (files res1)\<rparr>),
                 w3\<lparr>fs := remove_file src f3, trace := trace w3 @ [Unlink src]\<rparr>)
           else (Inr res1, w3))"
proof -
  have "after_extraction e req output_path info w =
          convert e req output_path src
            \<lparr>title = (case info_title info of Some t \<Rightarrow> t | None \<Rightarrow> ''Unknown Title''),
             status = ''success'', files = [original_entry src st]\<rparr> w"
    using found conv st by (simp add: after_extraction_def report_and_convert_def Let_def)
  also note convert_present [OF enc tgt sp refl refl]
  finally show ?thesis
    by (simp add: Let_def split: option.splits)
qed

lemma successful_run_cases:
  assumes run: "download_audio_from_youtube e req w = (Inr res, w')"
  obtains (plain) output_path opts w1 info w2 src st where
      "prepare e req w = ((output_path, opts), w1)"
      "extract_with_retry e opts (url req) w1 = (Inr (Some info), w2)"
      "find_downloaded_file info output_path (fs w2) = Some src"
      "\<not> convert_to_mp3 req" "files res = [original_entry src st]" "w' = w2"
  | (converted) output_path opts w1 info w2 src st tgt snap proc f3 where
      "prepare e req w = ((output_path, opts), w1)"
      "extract_with_retry e opts (url req) w1 = (Inr (Some info), w2)"
      "find_downloaded_file info output_path (fs w2) = Some src"
      "convert_to_mp3 req" "which e ''ffmpeg'' \<noteq> None"
      "tgt = mp3_path_of output_path src" "snap = remove_file tgt (fs w2)"
      "subprocess_run e (ffmpeg_cmd src tgt) snap = (proc, f3)" "returncode proc = 0"
      "files res =
         (let fl = original_entry src st
                   # (case map_of f3 tgt of Some st' \<Rightarrow> [mp3_entry tgt st'] | None \<Rightarrow> [])
          in if \<not> keep_original req \<and> file_exists f3 src
             then filter (\<lambda>f. entry_type f \<noteq> ''original'') fl else fl)"
      "trace w' = trace w2 @ Which ''ffmpeg'' # (if file_exists (fs w2) tgt then [Unlink tgt] else [])
                  @ SubprocessRun (ffmpeg_cmd src tgt) snap
                  # (if \<not> keep_original req \<and> file_exists f3 src then [Unlink src] else [])"
      "fs w' = (if \<not> keep_original req \<and> file_exists f3 src then remove_file src f3 else f3)"
  using run
proof (cases rule: download_cases)
  case (extracted output_path opts w1 info w2)
  note ae = extracted(3)
  show ?thesis
  proof (cases "find_downloaded_file info output_path (fs w2)")
    case None
    with ae show ?thesis by (simp add: after_extraction_not_found)
  next
    case (Some src)
    show ?thesis
    proof (cases "convert_to_mp3 req")
      case False
      from Some False obtain st where
        "after_extraction e req output_path info w2 =
           (Inr \<lparr>title = (case info_title info of Some t \<Rightarrow> t | None \<Rightarrow> ''Unknown Title''),
                 status = ''success'', files = [original_entry src st]\<rparr>, w2)"
        by (rule after_extraction_plain [where e = e])
      with ae have "files res = [original_entry src st]" "w' = w2" by auto
      with extracted(1,2) Some False show ?thesis by (rule plain)
    next
      case True
      show ?thesis
      proof (cases "which e ''ffmpeg''")
        case None
        with Some True ae show ?thesis by (simp add: after_extraction_no_encoder)
      next
        case (Some path)
        then have enc: "which e ''ffmpeg'' \<noteq> None" by simp
        define tgt where "tgt = mp3_path_of output_path src"
        define snap where "snap = remove_file tgt (fs w2)"
        obtain proc f3 where sp: "subprocess_run e (ffmpeg_cmd src tgt) snap = (proc, f3)"
          by (cases "subprocess_run e (ffmpeg_cmd src tgt) snap") auto
        from \<open>find_downloaded_file info output_path (fs w2) = Some src\<close>
        have "file_exists (fs w2) src" by (rule find_downloaded_file_exists)
        then obtain st where st: "map_of (fs w2) src = Some st" by (auto simp: file_exists_def)
        note eq = after_extraction_converting
          [OF \<open>find_downloaded_file info output_path (fs w2) = Some src\<close> True enc st tgt_def
              sp [unfolded snap_def]]
        from ae [unfolded eq] have "returncode proc = 0"
          and "files res =
               (let fl = original_entry src st
                         # (case map_of f3 tgt of Some st' \<Rightarrow> [mp3_entry tgt st'] | None \<Rightarrow> [])
                in if \<not> keep_original req \<and> file_exists f3 src
                   then filter (\<lambda>f. entry_type f \<noteq> ''original'') fl else fl)"
          and "trace w' = trace w2 @ Which ''ffmpeg'' # (if file_exists (fs w2) tgt then [Unlink tgt] else [])
                  @ SubprocessRun (ffmpeg_cmd src tgt) snap
                  # (if \<not> keep_original req \<and> file_exists f3 src then [Unlink src] else [])"
          and "fs w' = (if \<not> keep_original req \<and> file_exists f3 src then remove_file src f3 else f3)"
          by (auto simp: Let_def snap_def split: if_splits)
        with extracted(1,2) \<open>find_downloaded_file info output_path (fs w2) = Some src\<close> True enc
          tgt_def snap_def sp
        show ?thesis by (rule converted)
      qed
    qed
  qed
qed simp_all

lemma extraction_events:
  assumes prep: "prepare e req w = ((output_path, opts), w1)"
      and ext: "extract_with_retry e opts u w1 = (r, w2)"
  obtains evs where "trace w2 = trace w @ evs" "spawned evs = []" "which_calls evs = [''aria2c'']"
    "extract_calls evs = [(opts, u)] \<or> extract_calls evs = [(opts, u), (opts\<lparr>quiet := False\<rparr>, u)]"
proof -
  note p = prepare_world(2) [OF prep]
  from ext show ?thesis
  proof (cases rule: extract_with_retry_world)
    case once
    with p that [of "[Mkdir output_path, MeasureSpeed, Which ''aria2c'', Mkdir output_path, ExtractInfo opts u]"]
    show ?thesis by simp
  next
    case twice
    with p that [of "[Mkdir output_path, MeasureSpeed, Which ''aria2c'', Mkdir output_path,
                      ExtractInfo opts u, ExtractInfo (opts\<lparr>quiet := False\<rparr>) u]"]
    show ?thesis by simp
  qed
qed



subsection \<open>The example environments\<close>

lemmas path_defs = Path_def parts_def str_parts_def joinpath_def has_root_def path_stem_def
  path_name_def rfind_def mp3_path_of_def

lemma example_paths:
  "Path ''d'' = ''d''" "Path ''d/a.webm'' = ''d/a.webm''"
  "mp3_path_of ''d'' ''d/a.webm'' = ''d/a.mp3''"
  "joinpath ''d'' (path_stem ''d/a.webm'' @ ''.mp3'') = ''d/a.mp3''"
  by (simp_all add: path_defs Let_def)

lemma example_requests [simp]:
  "output_dir convert_request = Some ''d''" "output_dir plain_request = Some ''d''"
  "url convert_request = ''u''" "url plain_request = ''u''"
  "convert_to_mp3 convert_request" "\<not> keep_original convert_request"
  "\<not> convert_to_mp3 plain_request"
  by (simp_all add: convert_request_def plain_request_def)

lemma example_prepare:
  assumes "output_dir req = Some ''d''"
  obtains opts w1 where "prepare e req w = ((''d'', opts), w1)" "fs w1 = fs w"
proof -
  obtain output_path opts w1 where p: "prepare e req w = ((output_path, opts), w1)"
    by (metis surj_pair)
  with prepare_output_path [of e req w] assms have "output_path = ''d''"
    by (simp add: example_paths)
  with p prepare_world(1) [OF p] that show ?thesis by simp
qed

lemma example_extract:
  assumes "extract_info e = extract_info working_env" and "prepare e req w = ((''d'', opts), w1)"
  obtains w2 where "extract_with_retry e opts (url req) w1 = (Inr (Some example_info), w2)"
    "fs w2 = write_file ''d/a.webm'' \<lparr>st_mtime = 5, st_size = 1536\<rparr> (fs w)"
proof -
  from assms have "extract_info e opts (url req) (fs w1)
        = (Inr (Some example_info), write_file ''d/a.webm'' \<lparr>st_mtime = 5, st_size = 1536\<rparr> (fs w))"
    by (simp add: working_env_def prepare_world(1))
  from extract_first_returns [OF this] that show ?thesis by simp
qed

lemma example_found:
  "find_downloaded_file example_info output_path (write_file ''d/a.webm'' st fsys) = Some ''d/a.webm''"
  by (simp add: find_downloaded_file_cases requested_list_def example_info_def example_paths
                file_exists_write)

lemma working_env_reliable: "encoder_reliable working_env"
  by (simp add: encoder_reliable_def working_env_def ffmpeg_cmd_def file_exists_write)

lemma working_plain_run:
  "\<exists>res w'. download_audio_from_youtube working_env plain_request w = (Inr res, w')"
proof -
  obtain opts w1 where p: "prepare working_env plain_request w = ((''d'', opts), w1)"
    by (rule example_prepare [of plain_request]) simp
  then obtain w2 where x: "extract_with_retry working_env opts (url plain_request) w1 = (Inr (Some example_info), w2)"
    and f: "fs w2 = write_file ''d/a.webm'' \<lparr>st_mtime = 5, st_size = 1536\<rparr> (fs w)"
    by (rule example_extract [OF refl])
  from f have "find_downloaded_file example_info ''d'' (fs w2) = Some ''d/a.webm''"
    by (simp add: example_found)
  then obtain st where "after_extraction working_env plain_request ''d'' example_info w2 =
           (Inr \<lparr>title = (case info_title example_info of Some t \<Rightarrow> t | None \<Rightarrow> ''Unknown Title''),
                 status = ''success'', files = [original_entry ''d/a.webm'' st]\<rparr>, w2)"
    by (rule after_extraction_plain [where e = working_env and req = plain_request]) simp
  with download_extracted [OF p x] show ?thesis by simp
qed

lemma working_convert_run:
  "\<exists>res w'. download_audio_from_youtube working_env convert_request w = (Inr res, w')"
proof -
  obtain opts w1 where p: "prepare working_env convert_request w = ((''d'', opts), w1)"
    by (rule example_prepare [of convert_request]) simp
  then obtain w2 where x: "extract_with_retry working_env opts (url convert_request) w1 = (Inr (Some example_info), w2)"
    and f: "fs w2 = write_file ''d/a.webm'' \<lparr>st_mtime = 5, st_size = 1536\<rparr> (fs w)"
    by (rule example_extract [OF refl])
  from f have found: "find_downloaded_file example_info ''d'' (fs w2) = Some ''d/a.webm''"
    by (simp add: example_found)
  from f have st: "map_of (fs w2) ''d/a.webm'' = Some \<lparr>st_mtime = 5, st_size = 1536\<rparr>"
    by (simp add: map_of_write_same)
  have enc: "which working_env ''ffmpeg'' \<noteq> None" by (simp add: working_env_def)
  have sp: "subprocess_run working_env (ffmpeg_cmd ''d/a.webm'' ''d/a.mp3'') (remove_file ''d/a.mp3'' (fs w2))
          = (\<lparr>returncode = 0, stderr = []\<rparr>,
             write_file ''d/a.mp3'' \<lparr>st_mtime = 6, st_size = 2048\<rparr> (remove_file ''d/a.mp3'' (fs w2)))"
    using f by (simp add: working_env_def ffmpeg_cmd_def file_exists_remove file_exists_write)
  note eq = after_extraction_converting [OF found _ enc st example_paths(3) [symmetric] sp,
               of convert_request]
  from eq download_extracted [OF p x] show ?thesis
    by (simp add: Let_def)
qed




lemmas size_defs = human_readable_size_def size_loop.simps size_names_def format_2f_def
  str_nat.simps digit_char_def

lemma working_plain_result:
  "fst (download_audio_from_youtube working_env plain_request w)
     = Inr \<lparr>title = ''A'', status = ''success'',
            files = [\<lparr>entry_name = ''a.webm'', entry_type = ''original'',
                      entry_size = ''1.50 KB'', entry_format = ''WEBM''\<rparr>]\<rparr>"
proof -
  obtain opts w1 where p: "prepare working_env plain_request w = ((''d'', opts), w1)"
    by (rule example_prepare [of plain_request]) simp
  then obtain w2 where x: "extract_with_retry working_env opts (url plain_request) w1 = (Inr (Some example_info), w2)"
    and f: "fs w2 = write_file ''d/a.webm'' \<lparr>st_mtime = 5, st_size = 1536\<rparr> (fs w)"
    by (rule example_extract [OF refl])
  from f have found: "find_downloaded_file example_info ''d'' (fs w2) = Some ''d/a.webm''"
    by (simp add: example_found)
  from f have st: "map_of (fs w2) ''d/a.webm'' = Some \<lparr>st_mtime = 5, st_size = 1536\<rparr>"
    by (simp add: map_of_write_same)
  have entry: "original_entry ''d/a.webm'' \<lparr>st_mtime = 5, st_size = 1536\<rparr>
                 = \<lparr>entry_name = ''a.webm'', entry_type = ''original'',
                    entry_size = ''1.50 KB'', entry_format = ''WEBM''\<rparr>"
    by (simp add: original_entry_def path_name_def path_suffix_def parts_def has_root_def rfind_def
                  upper_def upper_char_def size_defs Let_def)
  from found st entry
  have "after_extraction working_env plain_request ''d'' example_info w2
          = (Inr \<lparr>title = ''A'', status = ''success'',
                  files = [\<lparr>entry_name = ''a.webm'', entry_type = ''original'',
                            entry_size = ''1.50 KB'', entry_format = ''WEBM''\<rparr>]\<rparr>, w2)"
    by (simp add: after_extraction_def report_and_convert_def example_info_def)
  with download_extracted [OF p x] show ?thesis by simp
qed

lemma working_convert_result:
  "fst (download_audio_from_youtube working_env convert_request w)
     = Inr \<lparr>title = ''A'', status = ''success'',
            files = [\<lparr>entry_name = ''a.mp3'', entry_type = ''mp3'',
                      entry_size = ''2.00 KB'', entry_format = ''MP3''\<rparr>]\<rparr>"
proof -
  obtain opts w1 where p: "prepare working_env convert_request w = ((''d'', opts), w1)"
    by (rule example_prepare [of convert_request]) simp
  then obtain w2 where x: "extract_with_retry working_env opts (url convert_request) w1 = (Inr (Some example_info), w2)"
    and f: "fs w2 = write_file ''d/a.webm'' \<lparr>st_mtime = 5, st_size = 1536\<rparr> (fs w)"
    by (rule example_extract [OF refl])
  from f have found: "find_downloaded_file example_info ''d'' (fs w2) = Some ''d/a.webm''"
    by (simp add: example_found)
  from f have st: "map_of (fs w2) ''d/a.webm'' = Some \<lparr>st_mtime = 5, st_size = 1536\<rparr>"
    by (simp add: map_of_write_same)
  have enc: "which working_env ''ffmpeg'' \<noteq> None" by (simp add: working_env_def)
  have sp: "subprocess_run working_env (ffmpeg_cmd ''d/a.webm'' ''d/a.mp3'') (remove_file ''d/a.mp3'' (fs w2))
          = (\<lparr>returncode = 0, stderr = []\<rparr>,
             write_file ''d/a.mp3'' \<lparr>st_mtime = 6, st_size = 2048\<rparr> (remove_file ''d/a.mp3'' (fs w2)))"
    using f by (simp add: working_env_def ffmpeg_cmd_def file_exists_remove file_exists_write)
  from f have src: "file_exists (write_file ''d/a.mp3'' \<lparr>st_mtime = 6, st_size = 2048\<rparr>
                                  (remove_file ''d/a.mp3'' (fs w2))) ''d/a.webm''"
    by (simp add: file_exists_remove file_exists_write)
  have entry: "mp3_entry ''d/a.mp3'' \<lparr>st_mtime = 6, st_size = 2048\<rparr>
                 = \<lparr>entry_name = ''a.mp3'', entry_type = ''mp3'',
                    entry_size = ''2.00 KB'', entry_format = ''MP3''\<rparr>"
    by (simp add: mp3_entry_def path_name_def parts_def has_root_def size_defs Let_def)
  note eq = after_extraction_converting [OF found _ enc st example_paths(3) [symmetric] sp,
               of convert_request]
  from eq download_extracted [OF p x] src entry show ?thesis
    by (simp add: Let_def map_of_write_same example_info_def)
qed

section \<open>The connection selector\<close>

text \<open>
  C3.  For every real \<open>mbps\<close> the connection selector returns 16 from 100 upwards, 8 on
  \<open>[50, 100)\<close>, 4 on \<open>[10, 50)\<close>, 1 on \<open>[0, 10)\<close> and 1 for every negative input; so its
  result is at least 1.
\<close>

theorem choose_connections_buckets:
  "(100 \<le> mbps \<longrightarrow> choose_connections mbps = 16)
   \<and> (50 \<le> mbps \<and> mbps < 100 \<longrightarrow> choose_connections mbps = 8)
   \<and> (10 \<le> mbps \<and> mbps < 50 \<longrightarrow> choose_connections mbps = 4)
   \<and> (0 \<le> mbps \<and> mbps < 10 \<longrightarrow> choose_connections mbps = 1)
   \<and> (mbps < 0 \<longrightarrow> choose_connections mbps = 1)
   \<and> 1 \<le> choose_connections mbps"
  by (simp add: choose_connections_def CONNECTION_THRESHOLDS_def)

theorem choose_connections_buckets_witness:
  "choose_connections 250 = 16 \<and> choose_connections 100 = 16
   \<and> choose_connections 75 = 8 \<and> choose_connections 50 = 8
   \<and> choose_connections 10 = 4 \<and> choose_connections (19 / 2) = 1
   \<and> choose_connections 0 = 1 \<and> choose_connections (- 3) = 1"
  using choose_connections_buckets [of 250] choose_connections_buckets [of 100]
    choose_connections_buckets [of 75] choose_connections_buckets [of 50]
    choose_connections_buckets [of 10] choose_connections_buckets [of "19 / 2"]
    choose_connections_buckets [of 0] choose_connections_buckets [of "- 3"]
  by simp

section \<open>The speed estimator\<close>

text \<open>
  C9.  The speed estimator never propagates an error: it always returns a value.  When
  any step of the measurement raises, the value is the fallback 10; when the measurement
  goes through, it is the measured bits per second (0 when the result has no such key)
  divided by 1,000,000.
\<close>

theorem measure_download_speed_total:
  "(\<exists>mbps. measure_download_speed st = Inr mbps)
   \<and> (Speedtest_raises st \<noteq> None \<or> get_best_server_raises st \<noteq> None \<or> download_raises st \<noteq> None
        \<longrightarrow> measure_download_speed st = Inr 10)
   \<and> (Speedtest_raises st = None \<and> get_best_server_raises st = None \<and> download_raises st = None
        \<longrightarrow> measure_download_speed st =
              Inr ((case results_dict st ''download'' of Some bps \<Rightarrow> bps | None \<Rightarrow> 0) / 1000000))"
proof -
  have "\<exists>mbps. measure_download_speed st = Inr mbps"
    by (cases "measure_attempt st") (simp_all add: measure_download_speed_def)
  then show ?thesis
    by (simp add: measure_download_speed_def measure_attempt_def split: option.splits)
qed

theorem measure_download_speed_total_witness:
  "measure_download_speed
     \<lparr>Speedtest_raises = None, get_best_server_raises = Some (LibraryError ''no servers''),
      download_raises = None, results_dict = Map.empty\<rparr> = Inr 10
   \<and> measure_download_speed
       \<lparr>Speedtest_raises = None, get_best_server_raises = None, download_raises = None,
        results_dict = [''download'' \<mapsto> 75000000]\<rparr> = Inr 75"
  using measure_download_speed_total
          [of "\<lparr>Speedtest_raises = None, get_best_server_raises = Some (LibraryError ''no servers''),
                download_raises = None, results_dict = Map.empty\<rparr>"]
        measure_download_speed_total
          [of "\<lparr>Speedtest_raises = None, get_best_server_raises = None, download_raises = None,
                results_dict = [''download'' \<mapsto> 75000000]\<rparr>"]
  by simp

section \<open>Classification of extraction errors\<close>

text \<open>
  C10.  The handler checks the substrings in a fixed order: a message with the bot
  verification text is classified as bot verification whatever else it contains; without
  it, a message with \<open>Private video\<close> is classified as private video, also when it contains
  \<open>Video unavailable\<close> as well; without both, a message with \<open>Video unavailable\<close> is
  classified as unavailable; any other message gives the generic error.  The last two
  conjuncts say the same with the substrings spelled out as factors of the message.
\<close>

theorem download_failure_precedence:
  "(contains BOT_MARK (str_exn e) \<longrightarrow> download_failure e = bot_verification_error)
   \<and> (\<not> contains BOT_MARK (str_exn e) \<and> contains ''Private video'' (str_exn e)
        \<longrightarrow> download_failure e = private_video_error)
   \<and> (\<not> contains BOT_MARK (str_exn e) \<and> \<not> contains ''Private video'' (str_exn e)
        \<and> contains ''Video unavailable'' (str_exn e)
        \<longrightarrow> download_failure e = video_unavailable_error)
   \<and> (\<not> contains BOT_MARK (str_exn e) \<and> \<not> contains ''Private video'' (str_exn e)
        \<and> \<not> contains ''Video unavailable'' (str_exn e)
        \<longrightarrow> download_failure e = generic_download_error (str_exn e))
   \<and> (\<forall>before after. str_exn e = before @ BOT_MARK @ after
        \<longrightarrow> download_failure e = bot_verification_error)
   \<and> (\<forall>a b c d. str_exn e = a @ ''Private video'' @ b \<and> str_exn e = c @ ''Video unavailable'' @ d
        \<and> \<not> contains BOT_MARK (str_exn e)
        \<longrightarrow> download_failure e = private_video_error)"
proof -
  have order: "(contains BOT_MARK (str_exn e) \<longrightarrow> download_failure e = bot_verification_error)
   \<and> (\<not> contains BOT_MARK (str_exn e) \<and> contains ''Private video'' (str_exn e)
        \<longrightarrow> download_failure e = private_video_error)
   \<and> (\<not> contains BOT_MARK (str_exn e) \<and> \<not> contains ''Private video'' (str_exn e)
        \<and> contains ''Video unavailable'' (str_exn e)
        \<longrightarrow> download_failure e = video_unavailable_error)
   \<and> (\<not> contains BOT_MARK (str_exn e) \<and> \<not> contains ''Private video'' (str_exn e)
        \<and> \<not> contains ''Video unavailable'' (str_exn e)
        \<longrightarrow> download_failure e = generic_download_error (str_exn e))"
    by (simp add: download_failure_def)
  have bot: "download_failure e = bot_verification_error"
    if "str_exn e = before @ BOT_MARK @ after" for before after
  proof -
    from that have "contains BOT_MARK (str_exn e)" unfolding contains_iff by blast
    with order show ?thesis by blast
  qed
  have priv: "download_failure e = private_video_error"
    if "str_exn e = a @ ''Private video'' @ b" "\<not> contains BOT_MARK (str_exn e)" for a b
  proof -
    from that(1) have "contains ''Private video'' (str_exn e)" unfolding contains_iff by blast
    with order that(2) show ?thesis by blast
  qed
  from order bot priv show ?thesis by blast
qed

theorem download_failure_precedence_witness:
  "download_failure (LibraryError ''Video unavailable. Private video. Sign in to confirm you're not a bot'')
     = bot_verification_error
   \<and> download_failure (LibraryError ''Video unavailable: Private video'') = private_video_error
   \<and> download_failure (LibraryError ''ERROR: Video unavailable'') = video_unavailable_error
   \<and> download_failure (LibraryError ''HTTP Error 403'') = generic_download_error ''HTTP Error 403''"
  using download_failure_precedence
          [of "LibraryError ''Video unavailable. Private video. Sign in to confirm you're not a bot''"]
        download_failure_precedence [of "LibraryError ''Video unavailable: Private video''"]
        download_failure_precedence [of "LibraryError ''ERROR: Video unavailable''"]
        download_failure_precedence [of "LibraryError ''HTTP Error 403''"]
  by (simp add: BOT_MARK_def)

section \<open>Extraction and its single retry\<close>



section \<open>File detection\<close>



section \<open>The files of the result\<close>

text \<open>
  The entry of type \<open>mp3\<close> is added only if the target exists once the encoder has
  returned (line 228), and the original is deleted and taken off the list only if it
  still exists then (line 236).  With an encoder that exits with status 0 without writing
  anything, a run with \<open>convert_to_mp3\<close> and without \<open>keep_original\<close> succeeds with an
  empty list of files.
\<close>

theorem lazy_encoder_leaves_no_entry:
  "convert_to_mp3 convert_request \<and> \<not> keep_original convert_request
   \<and> fst (download_audio_from_youtube lazy_encoder_env convert_request stale_world)
       = Inr \<lparr>title = ''A'', status = ''success'', files = []\<rparr>"
proof -
  have same: "extract_info lazy_encoder_env = extract_info working_env"
    by (simp add: lazy_encoder_env_def)
  obtain opts w1 where p: "prepare lazy_encoder_env convert_request stale_world = ((''d'', opts), w1)"
    by (rule example_prepare [of convert_request]) simp
  then obtain w2 where
    x: "extract_with_retry lazy_encoder_env opts (url convert_request) w1 = (Inr (Some example_info), w2)"
    and f: "fs w2 = write_file ''d/a.webm'' \<lparr>st_mtime = 5, st_size = 1536\<rparr> (fs stale_world)"
    by (rule example_extract [OF same])
  from f have found: "find_downloaded_file example_info ''d'' (fs w2) = Some ''d/a.webm''"
    by (simp add: example_found)
  from f have st: "map_of (fs w2) ''d/a.webm'' = Some \<lparr>st_mtime = 5, st_size = 1536\<rparr>"
    by (simp add: map_of_write_same)
  have enc: "which lazy_encoder_env ''ffmpeg'' \<noteq> None"
    by (simp add: lazy_encoder_env_def working_env_def)
  have sp: "subprocess_run lazy_encoder_env (ffmpeg_cmd ''d/a.webm'' ''d/a.mp3'') (remove_file ''d/a.mp3'' (fs w2))
          = (\<lparr>returncode = 0, stderr = []\<rparr>, remove_file ''d/a.mp3'' (fs w2))"
    by (simp add: lazy_encoder_env_def)
  from f have src: "file_exists (remove_file ''d/a.mp3'' (fs w2)) ''d/a.webm''"
    by (simp add: file_exists_remove file_exists_write)
  note eq = after_extraction_converting [OF found _ enc st example_paths(3) [symmetric] sp,
               of convert_request]
  from eq download_extracted [OF p x] src
  have "fst (download_audio_from_youtube lazy_encoder_env convert_request stale_world)
       = Inr \<lparr>title = ''A'', status = ''success'', files = []\<rparr>"
    by (simp add: Let_def map_of_remove_same example_info_def)
  then show ?thesis by simp
qed

text \<open>
  C4, as amended.  A run with \<open>convert_to_mp3\<close> and without \<open>keep_original\<close> that returns
  a result, with an encoder whose exit status 0 means that the target was written and the
  source left in place, returns exactly one entry, of type \<open>mp3\<close>, and no entry of type
  \<open>original\<close>: the last two events of the run are the encoder's run on the source and
  the deletion of the source, which no longer exists afterwards.
\<close>

theorem conversion_replaces_original:
  assumes conv: "convert_to_mp3 req" and drop: "\<not> keep_original req"
      and enc: "encoder_reliable e"
      and run: "download_audio_from_youtube e req w = (Inr res, w')"
  shows "map entry_type (files res) = [''mp3'']
       \<and> (\<exists>source target pre snapshot.
             new_events w w' = pre @ [SubprocessRun (ffmpeg_cmd source target) snapshot, Unlink source]
             \<and> \<not> file_exists (fs w') source)"
  using run
proof (cases rule: successful_run_cases)
  case plain
  with conv show ?thesis by simp
next
  case (converted output_path opts w1 info w2 src st tgt snap proc f3)
  from enc converted(8,9) have ex: "file_exists f3 src" "file_exists f3 tgt"
    unfolding encoder_reliable_def by (metis fst_conv snd_conv)+
  then obtain st' where "map_of f3 tgt = Some st'" by (auto simp: file_exists_def)
  with converted(10) ex drop have "files res = [mp3_entry tgt st']" by (simp add: Let_def)
  then have types: "map entry_type (files res) = [''mp3'']" by simp
  from converted(1,2) obtain evs where evs: "trace w2 = trace w @ evs"
    by (rule extraction_events)
  with converted(11) ex drop
  have "trace w' = trace w @ (evs @ Which ''ffmpeg'' # (if file_exists (fs w2) tgt then [Unlink tgt] else []))
                   @ [SubprocessRun (ffmpeg_cmd src tgt) snap, Unlink src]"
    by simp
  then have "new_events w w' = (evs @ Which ''ffmpeg'' # (if file_exists (fs w2) tgt then [Unlink tgt] else []))
                   @ [SubprocessRun (ffmpeg_cmd src tgt) snap, Unlink src]"
    by (rule new_events_append)
  moreover from converted(12) ex drop have "\<not> file_exists (fs w') src"
    by (simp add: file_exists_remove)
  ultimately show ?thesis using types by blast
qed

theorem conversion_replaces_original_witness:
  "convert_to_mp3 convert_request \<and> \<not> keep_original convert_request \<and> encoder_reliable working_env
   \<and> (\<exists>res w'. download_audio_from_youtube working_env convert_request stale_world = (Inr res, w')
         \<and> map entry_type (files res) = [''mp3'']
         \<and> (\<exists>source target pre snapshot.
               new_events stale_world w' = pre @ [SubprocessRun (ffmpeg_cmd source target) snapshot, Unlink source]
               \<and> \<not> file_exists (fs w') source))"
proof -
  from working_convert_run obtain res w' where
    run: "download_audio_from_youtube working_env convert_request stale_world = (Inr res, w')"
    by blast
  have c: "convert_to_mp3 convert_request" and k: "\<not> keep_original convert_request" by simp_all
  from conversion_replaces_original [OF c k working_env_reliable run] run c k working_env_reliable
  show ?thesis by (intro conjI exI [of _ res] exI [of _ w']) simp_all
qed

text \<open>
  C5.  A run without \<open>convert_to_mp3\<close> that returns a result returns exactly one entry,
  and it is of type \<open>original\<close>.
\<close>

theorem no_conversion_one_original:
  assumes "\<not> convert_to_mp3 req"
      and "download_audio_from_youtube e req w = (Inr res, w')"
  shows "map entry_type (files res) = [''original'']"
  using assms(2)
proof (cases rule: successful_run_cases)
  case plain
  then show ?thesis by simp
next
  case converted
  with assms(1) show ?thesis by simp
qed

theorem no_conversion_one_original_witness:
  "\<not> convert_to_mp3 plain_request
   \<and> (\<exists>res w'. download_audio_from_youtube working_env plain_request stale_world = (Inr res, w')
         \<and> map entry_type (files res) = [''original''])"
proof -
  from working_plain_run obtain res w' where
    run: "download_audio_from_youtube working_env plain_request stale_world = (Inr res, w')"
    by blast
  have c: "\<not> convert_to_mp3 plain_request" by simp
  from no_conversion_one_original [OF c run] run c show ?thesis
    by (intro conjI exI [of _ res] exI [of _ w']) simp_all
qed

text \<open>
  C6.  Whatever the flags, a run that returns a result returns at most one entry of type
  \<open>original\<close> and at most one entry of type \<open>mp3\<close>.
\<close>

theorem at_most_one_entry_of_each_type:
  assumes "download_audio_from_youtube e req w = (Inr res, w')"
  shows "length (filter (\<lambda>f. entry_type f = ''original'') (files res)) \<le> 1
       \<and> length (filter (\<lambda>f. entry_type f = ''mp3'') (files res)) \<le> 1"
  using assms
proof (cases rule: successful_run_cases)
  case plain
  then show ?thesis by simp
next
  case converted
  then show ?thesis by (simp add: Let_def split: option.splits)
qed

theorem at_most_one_entry_of_each_type_witness:
  "\<exists>res w'. download_audio_from_youtube working_env convert_request stale_world = (Inr res, w')
      \<and> length (filter (\<lambda>f. entry_type f = ''original'') (files res)) \<le> 1
      \<and> length (filter (\<lambda>f. entry_type f = ''mp3'') (files res)) \<le> 1"
proof -
  from working_convert_run obtain res w' where
    run: "download_audio_from_youtube working_env convert_request stale_world = (Inr res, w')"
    by blast
  from at_most_one_entry_of_each_type [OF run] run show ?thesis
    by (intro conjI exI [of _ res] exI [of _ w']) simp_all
qed

section \<open>The conversion\<close>






end
